theory Spec2Isabelle
  imports Complex_Main
begin

section \<open>Values held by the dashboard\<close>

text \<open>
  The hook stores whatever \<^verbatim>\<open>JSON.parse\<close> returns: the annotation
  \<^verbatim>\<open>const data: TelemetryData\<close> is erased when the TypeScript is compiled, so
  the runtime value is an arbitrary JSON value. Numbers are idealised as reals (the
  comparisons and floors below are those of the exact value), objects are association
  lists in the order of their members.
\<close>

datatype json =
    JNull
  | JBool bool
  | JNumber real
  | JString string
  | JArray "json list"
  | JObject "(string \<times> json) list"

text \<open>\<^verbatim>\<open>export type ConnectionState = 'connecting' | 'connected' | 'disconnected' | 'error'\<close>\<close>

datatype ConnectionState = Connecting | Connected | Disconnected | Error

text \<open>
  What a JavaScript call can throw here: \<^verbatim>\<open>JSON.parse\<close> and the constructor
  \<^verbatim>\<open>new WebSocket(url)\<close> raise a SyntaxError.
\<close>

datatype js_error = SyntaxError

section \<open>The hook \<^verbatim>\<open>useWebSocket\<close>\<close>

text \<open>
  The three \<^verbatim>\<open>useState\<close> cells of the hook. \<^verbatim>\<open>null\<close> is \<open>JNull\<close> for the
  telemetry and \<open>None\<close> for the error string.
\<close>

record hook_state =
  telemetry :: json
  connectionState :: ConnectionState
  error :: "string option"

text \<open>The object the hook returns on every render (\<^verbatim>\<open>UseWebSocketResult\<close>).\<close>

record UseWebSocketResult = hook_state +
  isConnected :: bool

text \<open>The hook's cells together with the lines it has written with \<^verbatim>\<open>console.error\<close>.\<close>

record hook_world = hook_state +
  console :: "string list"

text \<open>\<^verbatim>\<open>WebSocket.readyState\<close>: the four values of the platform's interface.\<close>

datatype ReadyState = CONNECTING | OPEN | CLOSING | CLOSED

text \<open>
  The transport handle, as far as the hook uses it: its \<^verbatim>\<open>readyState\<close> and the
  number of times \<^verbatim>\<open>close()\<close> has been called on it.
\<close>

record WebSocket =
  readyState :: ReadyState
  close_calls :: nat

text \<open>The transport events the hook installs a handler for.\<close>

datatype event = Open | Message string | ErrorEvent | Close

text \<open>The values given to \<^verbatim>\<open>useState\<close>; nothing has been logged yet.\<close>

definition initial :: hook_world where
  "initial = \<lparr>telemetry = JNull, connectionState = Disconnected, error = None, console = []\<rparr>"

text \<open>
  The effect body: \<^verbatim>\<open>setConnectionState('connecting'); setError(null);\<close>
  \<^verbatim>\<open>const ws = new WebSocket(url);\<close>, the four handlers, and the cleanup it returns.
  The constructor belongs to the platform and is a parameter: \<open>Inl\<close> when it throws
  (an address the platform rejects), \<open>Inr\<close> the handle otherwise. Nothing in the body
  catches, so what the constructor throws leaves the effect: the result is \<open>Inl\<close> and
  no render shows the two updates. Otherwise the result is the state of the next render
  together with the handle that the handlers are installed on and the cleanup closes
  over.
\<close>

definition effect ::
  "(string \<Rightarrow> js_error + WebSocket) \<Rightarrow> string \<Rightarrow> hook_world \<Rightarrow>
     js_error + hook_world \<times> WebSocket" where
  "effect WebSocket_new url w =
     (case WebSocket_new url of
        Inl err \<Rightarrow> Inl err
      | Inr ws \<Rightarrow> Inr (w\<lparr>connectionState := Connecting, error := None\<rparr>, ws))"

text \<open>\<^verbatim>\<open>ws.onopen\<close>\<close>

definition onopen :: "hook_world \<Rightarrow> hook_world" where
  "onopen w = w\<lparr>connectionState := Connected, error := None\<rparr>"

text \<open>
  \<^verbatim>\<open>try { ... } catch (err) { ... }\<close>: the handler runs on what the body threw,
  a value of the body passes through.
\<close>

definition try_catch :: "'e + 'a \<Rightarrow> ('e \<Rightarrow> 'e + 'a) \<Rightarrow> 'e + 'a" where
  "try_catch body handler = (case body of Inl e \<Rightarrow> handler e | Inr v \<Rightarrow> Inr v)"

text \<open>
  \<^verbatim>\<open>ws.onmessage\<close>. The decoder \<^verbatim>\<open>JSON.parse\<close> belongs to the platform and is a
  parameter: \<open>Inl\<close> when it throws, \<open>Inr\<close> the decoded value otherwise. The result is
  \<open>Inl\<close> when the handler itself lets an exception escape.
\<close>

definition onmessage ::
  "(string \<Rightarrow> js_error + json) \<Rightarrow> string \<Rightarrow> hook_world \<Rightarrow> js_error + hook_world" where
  "onmessage JSON_parse data w =
     try_catch
       (case JSON_parse data of
          Inl err \<Rightarrow> Inl err
        | Inr d \<Rightarrow> Inr (w\<lparr>telemetry := d\<rparr>))
       (\<lambda>err. Inr (w\<lparr>console := console w @ [''Failed to parse telemetry data:'']\<rparr>))"

text \<open>\<^verbatim>\<open>ws.onerror\<close>\<close>

definition onerror :: "hook_world \<Rightarrow> hook_world" where
  "onerror w =
     w\<lparr>connectionState := Error, error := Some ''WebSocket connection error'',
       console := console w @ [''WebSocket error:'']\<rparr>"

text \<open>\<^verbatim>\<open>ws.onclose\<close>\<close>

definition onclose :: "hook_world \<Rightarrow> hook_world" where
  "onclose w = w\<lparr>connectionState := Disconnected\<rparr>"

text \<open>One transport event, dispatched to its handler.\<close>

fun step :: "(string \<Rightarrow> js_error + json) \<Rightarrow> event \<Rightarrow> hook_world \<Rightarrow> js_error + hook_world" where
  "step JSON_parse Open w = Inr (onopen w)"
| "step JSON_parse (Message data) w = onmessage JSON_parse data w"
| "step JSON_parse ErrorEvent w = Inr (onerror w)"
| "step JSON_parse Close w = Inr (onclose w)"

text \<open>The \<^verbatim>\<open>return { ... }\<close> of the hook: what a render exposes.\<close>

definition useWebSocket_result :: "hook_world \<Rightarrow> UseWebSocketResult" where
  "useWebSocket_result w =
     \<lparr>telemetry = telemetry w,
      connectionState = connectionState w,
      error = error w,
      isConnected = (connectionState w = Connected)\<rparr>"

text \<open>
  Events are handled one at a time in arrival order and the component renders after
  each: the connection states exposed from a state on, one per render, or the exception
  a handler let escape.
\<close>

fun observe ::
  "(string \<Rightarrow> js_error + json) \<Rightarrow> event list \<Rightarrow> hook_world \<Rightarrow> js_error + ConnectionState list" where
  "observe JSON_parse [] w = Inr [connectionState (useWebSocket_result w)]"
| "observe JSON_parse (e # es) w =
     (case step JSON_parse e w of
        Inl err \<Rightarrow> Inl err
      | Inr w' \<Rightarrow>
          (case observe JSON_parse es w' of
             Inl err \<Rightarrow> Inl err
           | Inr cs \<Rightarrow> Inr (connectionState (useWebSocket_result w) # cs)))"

text \<open>
  The states of the hook: the first render sees \<open>initial\<close>, the effect runs once the
  component is mounted (and again when the address changes) and gives a state when the
  constructor returned a handle, and every transport event runs its handler.
\<close>

inductive reachable ::
  "(string \<Rightarrow> js_error + json) \<Rightarrow> (string \<Rightarrow> js_error + WebSocket) \<Rightarrow> hook_world \<Rightarrow> bool"
  for JSON_parse :: "string \<Rightarrow> js_error + json"
  and WebSocket_new :: "string \<Rightarrow> js_error + WebSocket" where
  reach_initial: "reachable JSON_parse WebSocket_new initial"
| reach_effect:
    "reachable JSON_parse WebSocket_new w \<Longrightarrow> effect WebSocket_new url w = Inr (w', ws) \<Longrightarrow>
     reachable JSON_parse WebSocket_new w'"
| reach_step:
    "reachable JSON_parse WebSocket_new w \<Longrightarrow> step JSON_parse e w = Inr w' \<Longrightarrow>
     reachable JSON_parse WebSocket_new w'"

section \<open>Teardown of the transport\<close>

text \<open>
  The platform's \<^verbatim>\<open>close()\<close> without arguments: it never throws; on a handle that is
  connecting or open it starts the closing handshake (\<open>CLOSING\<close>), on a closing or
  closed one it changes nothing. The call is counted either way.
\<close>

definition WebSocket_close :: "WebSocket \<Rightarrow> WebSocket" where
  "WebSocket_close ws =
     ws\<lparr>readyState :=
          (if readyState ws = CLOSING \<or> readyState ws = CLOSED then readyState ws else CLOSING),
        close_calls := Suc (close_calls ws)\<rparr>"

text \<open>The function the effect returns, run on unmount and before the effect runs again.\<close>

definition cleanup :: "WebSocket \<Rightarrow> WebSocket" where
  "cleanup ws =
     (if readyState ws = OPEN \<or> readyState ws = CONNECTING then WebSocket_close ws else ws)"

section \<open>Derived presentation values (\<^verbatim>\<open>App.tsx\<close>)\<close>

text \<open>\<^verbatim>\<open>getBatteryColor\<close>\<close>

definition getBatteryColor :: "real \<Rightarrow> string" where
  "getBatteryColor percentage =
     (if percentage > 50 then ''text-green-400''
      else if percentage > 20 then ''text-yellow-400''
      else ''text-red-400'')"

text \<open>
  The class expression of the motor temperature cell:
  \<^verbatim>\<open>motor.temperature > 60 ? 'text-red-400' : motor.temperature > 50 ? 'text-yellow-400' : ''\<close>
\<close>

definition motorTemperatureClass :: "real \<Rightarrow> string" where
  "motorTemperatureClass temperature =
     (if temperature > 60 then ''text-red-400''
      else if temperature > 50 then ''text-yellow-400''
      else [])"

text \<open>
  The numbers the uptime format computes with. A JSON number that overflows decodes to
  \<^verbatim>\<open>Infinity\<close>, and the arithmetic below can produce \<^verbatim>\<open>NaN\<close>. A finite double is
  idealised as the real (or integer) it denotes.
\<close>

datatype 'a js_number = Finite 'a | PosInfinity | NegInfinity | NaN

text \<open>\<^verbatim>\<open>Math.floor\<close>\<close>

fun Math_floor :: "real js_number \<Rightarrow> int js_number" where
  "Math_floor (Finite x) = Finite \<lfloor>x\<rfloor>"
| "Math_floor PosInfinity = PosInfinity"
| "Math_floor NegInfinity = NegInfinity"
| "Math_floor NaN = NaN"

text \<open>
  The operator \<^verbatim>\<open>/\<close> with a positive finite divisor (the constants 3600 and 60
  here). The finite quotient is the exact one. The platform's quotient is that one
  rounded to a double; with these two divisors and a non-negative dividend below
  \<open>2^53\<close> the two have the same \<^verbatim>\<open>Math.floor\<close>, for larger dividends they need
  not, and nothing is stated about those below.
\<close>

fun js_div :: "real js_number \<Rightarrow> real \<Rightarrow> real js_number" where
  "js_div (Finite x) y = Finite (x / y)"
| "js_div PosInfinity y = PosInfinity"
| "js_div NegInfinity y = NegInfinity"
| "js_div NaN y = NaN"

text \<open>
  The remainder operator \<^verbatim>\<open>%\<close> with a positive finite divisor: the quotient is
  truncated towards zero, so the result has the sign of the dividend (the remainder of
  two doubles is a double, no rounding occurs). The remainder of an infinity is
  \<^verbatim>\<open>NaN\<close>.
\<close>

fun js_rem :: "real js_number \<Rightarrow> real \<Rightarrow> real js_number" where
  "js_rem (Finite x) y =
     Finite (x - y * of_int (if 0 \<le> x / y then \<lfloor>x / y\<rfloor> else \<lceil>x / y\<rceil>))"
| "js_rem PosInfinity y = NaN"
| "js_rem NegInfinity y = NaN"
| "js_rem NaN y = NaN"

text \<open>The decimal digits of a natural number, most significant first.\<close>

fun digits :: "nat \<Rightarrow> string" where
  "digits n =
     (if n < 10 then [''0123456789'' ! n]
      else digits (n div 10) @ [''0123456789'' ! (n mod 10)])"

text \<open>
  \<^verbatim>\<open>toString()\<close> of an integral number. The plain decimal digits are what the
  platform prints for an integer of magnitude below \<open>2^53\<close>; above that it prints the
  shortest digits that read back as the same double and, from \<open>10^21\<close>, the exponent
  form, and nothing is stated about those below.
\<close>

fun toString :: "int js_number \<Rightarrow> string" where
  "toString (Finite n) = (if n < 0 then CHR ''-'' # digits (nat (- n)) else digits (nat n))"
| "toString PosInfinity = ''Infinity''"
| "toString NegInfinity = ''-Infinity''"
| "toString NaN = ''NaN''"

text \<open>
  \<^verbatim>\<open>padStart(targetLength, padString)\<close> with a one-character pad: a string that is
  long enough already is returned as it is.
\<close>

definition padStart :: "nat \<Rightarrow> char \<Rightarrow> string \<Rightarrow> string" where
  "padStart targetLength c s = replicate (targetLength - length s) c @ s"

text \<open>\<^verbatim>\<open>formatUptime\<close>\<close>

definition formatUptime :: "real js_number \<Rightarrow> string" where
  "formatUptime seconds =
     (let hours = Math_floor (js_div seconds 3600);
          minutes = Math_floor (js_div (js_rem seconds 3600) 60);
          secs = Math_floor (js_rem seconds 60)
      in padStart 2 CHR ''0'' (toString hours) @ '':'' @
         padStart 2 CHR ''0'' (toString minutes) @ '':'' @
         padStart 2 CHR ''0'' (toString secs))"

text \<open>
  The uptime format in the words of the specification: the seconds are truncated to a
  whole number, integer division by 3600 gives the hours, the remainder divided by 60
  the minutes, the remainder of that the seconds, each shown with at least two digits.
\<close>

definition two_digits :: "nat \<Rightarrow> string" where
  "two_digits n = (if n < 10 then CHR ''0'' # digits n else digits n)"

definition uptime_spec :: "real \<Rightarrow> string" where
  "uptime_spec s =
     (let t = nat \<lfloor>s\<rfloor>
      in two_digits (t div 3600) @ '':'' @
         two_digits ((t mod 3600) div 60) @ '':'' @
         two_digits (t mod 60))"

section \<open>The shape of a telemetry snapshot (\<^verbatim>\<open>types/telemetry.ts\<close>)\<close>

text \<open>Reading a property of a decoded value; only an object has named members.\<close>

fun field :: "string \<Rightarrow> json \<Rightarrow> json option" where
  "field k (JObject ms) = map_of ms k"
| "field k v = None"

definition is_number :: "json \<Rightarrow> bool" where
  "is_number v = (case v of JNumber x \<Rightarrow> True | _ \<Rightarrow> False)"

definition is_string :: "json \<Rightarrow> bool" where
  "is_string v = (case v of JString x \<Rightarrow> True | _ \<Rightarrow> False)"

definition is_boolean :: "json \<Rightarrow> bool" where
  "is_boolean v = (case v of JBool x \<Rightarrow> True | _ \<Rightarrow> False)"

text \<open>A required member \<open>k\<close> whose value has the shape \<open>P\<close>.\<close>

definition has :: "string \<Rightarrow> (json \<Rightarrow> bool) \<Rightarrow> json \<Rightarrow> bool" where
  "has k P v = (case field k v of None \<Rightarrow> False | Some x \<Rightarrow> P x)"

text \<open>\<^verbatim>\<open>enum MotorStatus\<close> and \<^verbatim>\<open>enum SystemHealthStatus\<close>, by their string values.\<close>

definition is_MotorStatus :: "json \<Rightarrow> bool" where
  "is_MotorStatus v =
     (v = JString ''ok'' \<or> v = JString ''warning'' \<or> v = JString ''error'' \<or>
      v = JString ''offline'')"

definition is_SystemHealthStatus :: "json \<Rightarrow> bool" where
  "is_SystemHealthStatus v =
     (v = JString ''healthy'' \<or> v = JString ''degraded'' \<or> v = JString ''critical'')"

text \<open>\<^verbatim>\<open>interface JointData\<close>, \<^verbatim>\<open>MotorData\<close>, \<^verbatim>\<open>IMUData\<close>\<close>

definition is_JointData :: "json \<Rightarrow> bool" where
  "is_JointData v =
     (has ''position'' is_number v \<and> has ''velocity'' is_number v \<and>
      has ''torque'' is_number v)"

definition is_MotorData :: "json \<Rightarrow> bool" where
  "is_MotorData v =
     (has ''current'' is_number v \<and> has ''temperature'' is_number v \<and>
      has ''status'' is_MotorStatus v)"

text \<open>The tuple type \<^verbatim>\<open>[number, number, number]\<close>.\<close>

definition is_triple :: "json \<Rightarrow> bool" where
  "is_triple v =
     (case v of JArray xs \<Rightarrow> length xs = 3 \<and> list_all is_number xs | _ \<Rightarrow> False)"

definition is_IMUData :: "json \<Rightarrow> bool" where
  "is_IMUData v = (has ''acceleration'' is_triple v \<and> has ''gyroscope'' is_triple v)"

text \<open>
  \<^verbatim>\<open>JointsData\<close>, \<^verbatim>\<open>MotorsData\<close> and \<^verbatim>\<open>SensorsData\<close> have the same four members, the
  names of \<^verbatim>\<open>JOINT_NAMES\<close>, each of the shape \<open>P\<close>.
\<close>

definition JOINT_NAMES :: "string list" where
  "JOINT_NAMES = [''left_hip'', ''left_knee'', ''right_hip'', ''right_knee'']"

definition per_joint :: "(json \<Rightarrow> bool) \<Rightarrow> json \<Rightarrow> bool" where
  "per_joint P v = list_all (\<lambda>name. has name P v) JOINT_NAMES"

text \<open>\<^verbatim>\<open>interface PowerData\<close>, \<^verbatim>\<open>SystemData\<close>\<close>

definition is_PowerData :: "json \<Rightarrow> bool" where
  "is_PowerData v =
     (has ''battery_percentage'' is_number v \<and> has ''battery_voltage'' is_number v \<and>
      has ''current_draw'' is_number v)"

definition is_string_array :: "json \<Rightarrow> bool" where
  "is_string_array v = (case v of JArray xs \<Rightarrow> list_all is_string xs | _ \<Rightarrow> False)"

definition is_SystemData :: "json \<Rightarrow> bool" where
  "is_SystemData v =
     (has ''health_status'' is_SystemHealthStatus v \<and> has ''emergency_stop'' is_boolean v \<and>
      has ''error_messages'' is_string_array v \<and> has ''uptime_seconds'' is_number v)"

text \<open>\<^verbatim>\<open>interface TelemetryData\<close>: the values a valid snapshot ranges over.\<close>

definition is_TelemetryData :: "json \<Rightarrow> bool" where
  "is_TelemetryData v =
     (has ''timestamp'' is_string v \<and> has ''sequence'' is_number v \<and>
      has ''joints'' (per_joint is_JointData) v \<and>
      has ''motors'' (per_joint is_MotorData) v \<and>
      has ''sensors'' (per_joint is_IMUData) v \<and>
      has ''power'' is_PowerData v \<and>
      has ''system'' is_SystemData v)"

section \<open>Example frames\<close>

text \<open>A complete frame of the inbound message schema, and the value it decodes to.\<close>

definition sample_tail :: string where
  \<open>sample_tail =
     ''"motors":{"left_hip":{"current":1.5,"temperature":41.5,"status":"ok"},'' @
     ''"left_knee":{"current":2,"temperature":55,"status":"warning"},'' @
     ''"right_hip":{"current":1.5,"temperature":61,"status":"error"},'' @
     ''"right_knee":{"current":0,"temperature":20,"status":"offline"}},'' @
     ''"sensors":{"left_hip":{"acceleration":[0,0,9.8],"gyroscope":[0,0,0]},'' @
     ''"left_knee":{"acceleration":[0,0,9.8],"gyroscope":[0,0,0]},'' @
     ''"right_hip":{"acceleration":[0,0,9.8],"gyroscope":[0,0,0]},'' @
     ''"right_knee":{"acceleration":[0,0,9.8],"gyroscope":[0,0,0]}},'' @
     ''"power":{"battery_percentage":50,"battery_voltage":24.5,"current_draw":3.25},'' @
     ''"system":{"health_status":"healthy","emergency_stop":false,'' @
     ''"error_messages":[],"uptime_seconds":3661.9}}''\<close>

definition sample_frame :: string where
  \<open>sample_frame =
     ''{"timestamp":"2025-01-01T00:00:00Z","sequence":7,'' @
     ''"joints":{"left_hip":{"position":0.5,"velocity":-0.25,"torque":1.5},'' @
     ''"left_knee":{"position":1,"velocity":0,"torque":2},'' @
     ''"right_hip":{"position":0.5,"velocity":0.25,"torque":1.5},'' @
     ''"right_knee":{"position":1,"velocity":0,"torque":2}},'' @
     sample_tail\<close>

definition sample_joint :: "real \<Rightarrow> real \<Rightarrow> real \<Rightarrow> json" where
  "sample_joint p v t =
     JObject [(''position'', JNumber p), (''velocity'', JNumber v), (''torque'', JNumber t)]"

definition sample_motor :: "real \<Rightarrow> real \<Rightarrow> string \<Rightarrow> json" where
  "sample_motor c t s =
     JObject [(''current'', JNumber c), (''temperature'', JNumber t), (''status'', JString s)]"

definition sample_imu :: json where
  "sample_imu =
     JObject
       [(''acceleration'', JArray [JNumber 0, JNumber 0, JNumber 9.8]),
        (''gyroscope'', JArray [JNumber 0, JNumber 0, JNumber 0])]"

text \<open>Everything of the sample but its \<^verbatim>\<open>joints\<close>.\<close>

definition sample_rest :: "(string \<times> json) list" where
  "sample_rest =
     [(''motors'',
       JObject
         [(''left_hip'', sample_motor 1.5 41.5 ''ok''),
          (''left_knee'', sample_motor 2 55 ''warning''),
          (''right_hip'', sample_motor 1.5 61 ''error''),
          (''right_knee'', sample_motor 0 20 ''offline'')]),
      (''sensors'',
       JObject
         [(''left_hip'', sample_imu), (''left_knee'', sample_imu),
          (''right_hip'', sample_imu), (''right_knee'', sample_imu)]),
      (''power'',
       JObject
         [(''battery_percentage'', JNumber 50), (''battery_voltage'', JNumber 24.5),
          (''current_draw'', JNumber 3.25)]),
      (''system'',
       JObject
         [(''health_status'', JString ''healthy''), (''emergency_stop'', JBool False),
          (''error_messages'', JArray []), (''uptime_seconds'', JNumber 3661.9)])]"

definition sample_snapshot :: json where
  "sample_snapshot =
     JObject
       ([(''timestamp'', JString ''2025-01-01T00:00:00Z''),
         (''sequence'', JNumber 7),
         (''joints'',
          JObject
            [(''left_hip'', sample_joint 0.5 (- 0.25) 1.5),
             (''left_knee'', sample_joint 1 0 2),
             (''right_hip'', sample_joint 0.5 0.25 1.5),
             (''right_knee'', sample_joint 1 0 2)])] @ sample_rest)"

text \<open>The same frame one sequence number later, without \<^verbatim>\<open>left_hip\<close> under \<^verbatim>\<open>joints\<close>.\<close>

definition partial_frame :: string where
  \<open>partial_frame =
     ''{"timestamp":"2025-01-01T00:00:00Z","sequence":8,'' @
     ''"joints":{"left_knee":{"position":1,"velocity":0,"torque":2},'' @
     ''"right_hip":{"position":0.5,"velocity":0.25,"torque":1.5},'' @
     ''"right_knee":{"position":1,"velocity":0,"torque":2}},'' @
     sample_tail\<close>

definition partial_snapshot :: json where
  "partial_snapshot =
     JObject
       ([(''timestamp'', JString ''2025-01-01T00:00:00Z''),
         (''sequence'', JNumber 8),
         (''joints'',
          JObject
            [(''left_knee'', sample_joint 1 0 2),
             (''right_hip'', sample_joint 0.5 0.25 1.5),
             (''right_knee'', sample_joint 1 0 2)])] @ sample_rest)"

text \<open>A frame cut off in the middle of a string.\<close>

definition truncated_frame :: string where
  \<open>truncated_frame = ''{"timestamp":"2025-01-01T00:00:00Z","sequence":9,"joints":{"left_h''\<close>

text \<open>
  Every general statement below holds for any decoder. The closed examples need one
  that runs: \<^verbatim>\<open>JSON.parse\<close> cut down to the example frames. The two complete
  texts decode to the values they denote; any other text, among them the truncated
  frame, is answered with a SyntaxError.
\<close>

definition example_decoder :: "string \<Rightarrow> js_error + json" where
  "example_decoder text =
     (if text = sample_frame then Inr sample_snapshot
      else if text = partial_frame then Inr partial_snapshot
      else Inl SyntaxError)"

text \<open>
  The constructor for the closed examples: the default address of the dashboard gets a
  handle that is connecting; any other address, among them one with a scheme that is
  not a WebSocket scheme, is answered with a SyntaxError.
\<close>

definition example_WebSocket :: "string \<Rightarrow> js_error + WebSocket" where
  "example_WebSocket url =
     (if url = ''ws://localhost:8000/ws''
      then Inr \<lparr>readyState = CONNECTING, close_calls = 0\<rparr>
      else Inl SyntaxError)"

text \<open>A connected hook that holds the snapshot \<open>s\<close>.\<close>

definition holding :: "json \<Rightarrow> hook_world" where
  "holding s = \<lparr>telemetry = s, connectionState = Connected, error = None, console = []\<rparr>"

section \<open>Facts about the handlers\<close>

lemma onmessage_cases:
  "onmessage P d w =
     (case P d of
        Inl err \<Rightarrow> Inr (w\<lparr>console := console w @ [''Failed to parse telemetry data:'']\<rparr>)
      | Inr v \<Rightarrow> Inr (w\<lparr>telemetry := v\<rparr>))"
  by (simp add: onmessage_def try_catch_def split: sum.split)

lemma onmessage_returns:
  "\<exists>w'. onmessage P d w = Inr w' \<and> connectionState w' = connectionState w \<and> error w' = error w"
  by (simp add: onmessage_cases split: sum.split)

lemma step_returns:
  "\<exists>w'. step P e w = Inr w'"
proof (cases e)
  case (Message d)
  then show ?thesis using onmessage_returns [of P d w] by auto
qed simp_all

lemma observe_messages_close:
  "observe P (map Message ms @ [Close]) w =
     Inr (replicate (Suc (length ms)) (connectionState w) @ [Disconnected])"
proof (induction ms arbitrary: w)
  case Nil
  show ?case by (simp add: onclose_def useWebSocket_result_def)
next
  case (Cons d ms)
  obtain w' where w': "onmessage P d w = Inr w'" "connectionState w' = connectionState w"
    using onmessage_returns [of P d w] by blast
  show ?case using Cons.IH [of w'] w' by (simp add: useWebSocket_result_def)
qed

section \<open>Facts about the uptime format\<close>

declare digits.simps [simp del]

lemma digits_small: "n < 10 \<Longrightarrow> digits n = [''0123456789'' ! n]"
  by (subst digits.simps) simp

lemma digits_length_pos: "0 < length (digits n)"
  by (induction n rule: digits.induct) (subst digits.simps, simp)

lemma digits_length_large: "\<not> n < 10 \<Longrightarrow> 2 \<le> length (digits n)"
proof -
  assume h: "\<not> n < 10"
  have "digits n = digits (n div 10) @ [''0123456789'' ! (n mod 10)]"
    using h by (subst digits.simps) simp
  moreover have "Suc 0 \<le> length (digits (n div 10))"
    using digits_length_pos [of "n div 10"] by (simp add: Suc_le_eq del: length_greater_0_conv)
  ultimately show ?thesis by simp
qed

lemma padStart_toString: "padStart 2 CHR ''0'' (toString (Finite (int n))) = two_digits n"
proof (cases "n < 10")
  case True
  then show ?thesis by (simp add: padStart_def two_digits_def digits_small)
next
  case False
  then have "2 \<le> length (digits n)" by (rule digits_length_large)
  with False show ?thesis by (simp add: padStart_def two_digits_def)
qed

lemma floor_div_const:
  fixes s :: real
  assumes "0 \<le> s" and "0 < k"
  shows "\<lfloor>s / real k\<rfloor> = int (nat \<lfloor>s\<rfloor> div k)"
proof -
  have "\<lfloor>s / real_of_int (int k)\<rfloor> = \<lfloor>s\<rfloor> div int k"
    by (rule floor_divide_real_eq_div) simp
  moreover have "0 \<le> \<lfloor>s\<rfloor>" using assms by simp
  ultimately show ?thesis by (simp add: zdiv_int)
qed

lemma js_rem_nonneg:
  fixes s :: real
  assumes "0 \<le> s" and "0 < k"
  shows "js_rem (Finite s) (real k) = Finite (s - real k * of_int (int (nat \<lfloor>s\<rfloor> div k)))"
  using assms floor_div_const [OF assms] by simp

lemma hours_eq:
  "0 \<le> s \<Longrightarrow> Math_floor (js_div (Finite s) 3600) = Finite (int (nat \<lfloor>s\<rfloor> div 3600))"
  using floor_div_const [of s 3600] by simp

lemma secs_eq:
  assumes "0 \<le> s"
  shows "Math_floor (js_rem (Finite s) 60) = Finite (int (nat \<lfloor>s\<rfloor> mod 60))"
proof -
  define t where "t = nat \<lfloor>s\<rfloor>"
  have "js_rem (Finite s) 60 = Finite (s - 60 * of_int (int (t div 60)))"
    using js_rem_nonneg [of s 60] assms by (simp add: t_def)
  also have "\<dots> = Finite (s - of_int (60 * int (t div 60)))" by simp
  finally have "Math_floor (js_rem (Finite s) 60) = Finite (\<lfloor>s\<rfloor> - 60 * int (t div 60))"
    by (simp only: Math_floor.simps floor_diff_of_int)
  also have "\<lfloor>s\<rfloor> = int t" using assms by (simp add: t_def)
  also have "int t - 60 * int (t div 60) = int (t mod 60)"
    by (simp add: of_nat_div of_nat_mod minus_mult_div_eq_mod)
  finally show ?thesis by (simp add: t_def)
qed

lemma minutes_eq:
  assumes "0 \<le> s"
  shows "Math_floor (js_div (js_rem (Finite s) 3600) 60) =
           Finite (int ((nat \<lfloor>s\<rfloor> mod 3600) div 60))"
proof -
  define t where "t = nat \<lfloor>s\<rfloor>"
  have "js_div (js_rem (Finite s) 3600) 60 = Finite (s / 60 - of_int (60 * int (t div 3600)))"
    using js_rem_nonneg [of s 3600] assms by (simp add: t_def)
  then have "Math_floor (js_div (js_rem (Finite s) 3600) 60) =
      Finite (\<lfloor>s / 60\<rfloor> - 60 * int (t div 3600))"
    by (simp only: Math_floor.simps floor_diff_of_int)
  also have "\<lfloor>s / 60\<rfloor> = int (t div 60)"
    using floor_div_const [of s 60] assms by (simp add: t_def)
  also have "int (t div 60) - 60 * int (t div 3600) = int ((t mod 3600) div 60)"
  proof -
    have "t div 3600 = (t div 60) div 60" by (simp add: div_mult2_eq)
    moreover have "(t mod 3600) div 60 = (t div 60) mod 60"
      using mod_mult2_eq [of t 60 60] by simp
    ultimately show ?thesis
      by (simp add: of_nat_div of_nat_mod minus_mult_div_eq_mod)
  qed
  finally show ?thesis by (simp add: t_def)
qed

lemma two_digits_length: "n < 100 \<Longrightarrow> length (two_digits n) = 2"
proof (cases "n < 10")
  case True
  then show ?thesis by (simp add: two_digits_def digits_small)
next
  case False
  moreover assume "n < 100"
  ultimately have "n div 10 < 10" by simp
  then have "length (digits (n div 10)) = 1" by (simp add: digits_small)
  with False show ?thesis by (subst two_digits_def, subst digits.simps) simp
qed

section \<open>Facts about the example frames\<close>

lemma example_WebSocket_default:
  "example_WebSocket ''ws://localhost:8000/ws'' = Inr \<lparr>readyState = CONNECTING, close_calls = 0\<rparr>"
  by (simp add: example_WebSocket_def)

lemma example_WebSocket_ftp: "example_WebSocket ''ftp://localhost:8000/ws'' = Inl SyntaxError"
  by (simp add: example_WebSocket_def)

lemma partial_frame_decodes: "example_decoder partial_frame = Inr partial_snapshot"
  by (simp add: example_decoder_def partial_frame_def sample_frame_def)

lemma truncated_frame_rejected: "example_decoder truncated_frame = Inl SyntaxError"
  by (simp add: example_decoder_def truncated_frame_def partial_frame_def sample_frame_def)

lemma sample_snapshot_valid: "is_TelemetryData sample_snapshot"
  by code_simp

lemma partial_snapshot_invalid: "\<not> is_TelemetryData partial_snapshot"
  by code_simp

lemma partial_snapshot_joints:
  "has ''joints'' (\<lambda>j. field ''left_hip'' j = None) partial_snapshot"
  by code_simp

lemma partial_snapshot_differs: "partial_snapshot \<noteq> sample_snapshot"
  by (simp add: partial_snapshot_def sample_snapshot_def)

section \<open>The claims\<close>

subsection \<open>Frames\<close>

text \<open>
  C1, as the code has it. The handler has no validation step: a payload that decodes is
  stored, whatever the shape of the decoded value, complete or partial. The decoded
  value replaces the held snapshot as a whole (nothing of the old one is merged into
  it), the connection state and the error stay as they were, nothing is thrown.
\<close>

theorem decoded_frame_replaces_snapshot:
  assumes "JSON_parse d = Inr v"
  shows "onmessage JSON_parse d w = Inr (w\<lparr>telemetry := v\<rparr>)"
  using assms by (simp add: onmessage_cases)

theorem decoded_frame_replaces_snapshot_witness:
  "example_decoder partial_frame = Inr partial_snapshot \<and>
   onmessage example_decoder partial_frame (holding sample_snapshot) =
     Inr ((holding sample_snapshot)\<lparr>telemetry := partial_snapshot\<rparr>)"
  using decoded_frame_replaces_snapshot
      [of example_decoder partial_frame partial_snapshot "holding sample_snapshot"]
    partial_frame_decodes
  by simp

text \<open>
  C1, as it was stated, fails: the hook holds the complete sample snapshot, the next
  frame has no \<^verbatim>\<open>left_hip\<close> under \<^verbatim>\<open>joints\<close> (so it is not a \<^verbatim>\<open>TelemetryData\<close>), and
  after the handler the held snapshot is that partial value, not the previous one.
\<close>

theorem partial_frame_not_rejected:
  "has ''joints'' (\<lambda>j. field ''left_hip'' j = None) partial_snapshot \<and>
   \<not> is_TelemetryData partial_snapshot \<and>
   is_TelemetryData (telemetry (holding sample_snapshot)) \<and>
   onmessage example_decoder partial_frame (holding sample_snapshot) =
     Inr ((holding sample_snapshot)\<lparr>telemetry := partial_snapshot\<rparr>) \<and>
   telemetry ((holding sample_snapshot)\<lparr>telemetry := partial_snapshot\<rparr>) \<noteq>
     telemetry (holding sample_snapshot)"
  using partial_snapshot_joints partial_snapshot_invalid sample_snapshot_valid
    partial_snapshot_differs partial_frame_decodes
  by (simp add: onmessage_cases holding_def)

text \<open>
  C2. A payload the decoder throws on: the handler catches the exception and returns
  normally; the snapshot, the connection state and the error are those of before, so the
  next render exposes exactly what the last one did. Only a line on the console records
  the failed frame.
\<close>

theorem malformed_frame_absorbed:
  assumes "JSON_parse d = Inl e"
  shows "\<exists>w'. step JSON_parse (Message d) w = Inr w' \<and>
           telemetry w' = telemetry w \<and>
           connectionState w' = connectionState w \<and>
           error w' = error w \<and>
           useWebSocket_result w' = useWebSocket_result w \<and>
           console w' = console w @ [''Failed to parse telemetry data:'']"
  using assms by (simp add: onmessage_cases useWebSocket_result_def)

theorem malformed_frame_absorbed_witness:
  "example_decoder truncated_frame = Inl SyntaxError \<and>
   (\<exists>w'. step example_decoder (Message truncated_frame) (holding sample_snapshot) = Inr w' \<and>
      telemetry w' = telemetry (holding sample_snapshot) \<and>
      connectionState w' = connectionState (holding sample_snapshot) \<and>
      error w' = error (holding sample_snapshot) \<and>
      useWebSocket_result w' = useWebSocket_result (holding sample_snapshot) \<and>
      console w' = console (holding sample_snapshot) @ [''Failed to parse telemetry data:''])"
  using malformed_frame_absorbed
      [of example_decoder truncated_frame SyntaxError "holding sample_snapshot"]
    truncated_frame_rejected
  by blast

subsection \<open>Connection state\<close>

text \<open>
  C3. Each handler sets the connection state whatever it was before: open gives
  Connected and clears the error, a transport error gives Error with the fixed
  description, close gives Disconnected. Events are delivered on a handle, so the
  sequences are those of an effect whose constructor returned one: a session that
  opens, receives any number of frames and closes shows Connecting, Connected,
  Disconnected and never Error, and a failed handshake shows Connecting, Error, and
  Disconnected once the close event follows.
\<close>

theorem connection_lifecycle:
  "connectionState (onopen w) = Connected \<and> error (onopen w) = None \<and>
   connectionState (onerror w) = Error \<and>
   error (onerror w) = Some ''WebSocket connection error'' \<and>
   connectionState (onclose w) = Disconnected \<and>
   (WebSocket_new url = Inr ws \<longrightarrow>
      (\<exists>w0. effect WebSocket_new url w = Inr (w0, ws) \<and>
         observe JSON_parse (Open # map Message ms @ [Close]) w0 =
           Inr (Connecting # replicate (Suc (length ms)) Connected @ [Disconnected]) \<and>
         observe JSON_parse [ErrorEvent] w0 = Inr [Connecting, Error] \<and>
         observe JSON_parse [ErrorEvent, Close] w0 = Inr [Connecting, Error, Disconnected]))"
proof -
  define w0 where "w0 = w\<lparr>connectionState := Connecting, error := None\<rparr>"
  have "observe JSON_parse (Open # map Message ms @ [Close]) w0 =
     Inr (Connecting # replicate (Suc (length ms)) Connected @ [Disconnected])"
    using observe_messages_close [of JSON_parse ms "onopen w0"]
    by (simp add: useWebSocket_result_def w0_def onopen_def)
  moreover have "observe JSON_parse [ErrorEvent] w0 = Inr [Connecting, Error]"
    "observe JSON_parse [ErrorEvent, Close] w0 = Inr [Connecting, Error, Disconnected]"
    by (simp_all add: w0_def onerror_def onclose_def useWebSocket_result_def)
  moreover have "effect WebSocket_new url w = Inr (w0, ws)" if "WebSocket_new url = Inr ws"
    using that by (simp add: effect_def w0_def)
  ultimately show ?thesis
    by (auto simp: onopen_def onerror_def onclose_def)
qed

theorem connection_lifecycle_witness:
  "example_WebSocket ''ws://localhost:8000/ws'' =
     Inr \<lparr>readyState = CONNECTING, close_calls = 0\<rparr> \<and>
   (\<exists>w0. effect example_WebSocket ''ws://localhost:8000/ws'' initial =
           Inr (w0, \<lparr>readyState = CONNECTING, close_calls = 0\<rparr>) \<and>
      observe example_decoder
          (Open # map Message [sample_frame, truncated_frame] @ [Close]) w0 =
        Inr (Connecting #
             replicate (Suc (length [sample_frame, truncated_frame])) Connected @
             [Disconnected]) \<and>
      observe example_decoder [ErrorEvent] w0 = Inr [Connecting, Error] \<and>
      observe example_decoder [ErrorEvent, Close] w0 = Inr [Connecting, Error, Disconnected])"
  using connection_lifecycle
      [of initial example_WebSocket "''ws://localhost:8000/ws''"
        "\<lparr>readyState = CONNECTING, close_calls = 0\<rparr>" example_decoder
        "[sample_frame, truncated_frame]"]
    example_WebSocket_default
  by blast

text \<open>
  C4, as the code has it. The first render exposes the value given to
  \<^verbatim>\<open>useState\<close>, which is Disconnected. When the constructor returned a handle, the
  effect has run, and before any transport event the exposed state is Connecting and the
  error is cleared. When the constructor throws, the effect throws with it and gives no
  state to render.
\<close>

theorem connecting_after_effect:
  "connectionState (useWebSocket_result initial) = Disconnected \<and>
   (WebSocket_new url = Inr ws \<longrightarrow>
      (\<exists>w'. effect WebSocket_new url w = Inr (w', ws) \<and>
         connectionState (useWebSocket_result w') = Connecting \<and>
         error (useWebSocket_result w') = None)) \<and>
   (WebSocket_new url = Inl err \<longrightarrow> effect WebSocket_new url w = Inl err)"
  by (simp add: useWebSocket_result_def initial_def effect_def)

theorem connecting_after_effect_witness:
  "example_WebSocket ''ws://localhost:8000/ws'' =
     Inr \<lparr>readyState = CONNECTING, close_calls = 0\<rparr> \<and>
   (\<exists>w'. effect example_WebSocket ''ws://localhost:8000/ws'' initial =
           Inr (w', \<lparr>readyState = CONNECTING, close_calls = 0\<rparr>) \<and>
      connectionState (useWebSocket_result w') = Connecting \<and>
      error (useWebSocket_result w') = None) \<and>
   example_WebSocket ''ftp://localhost:8000/ws'' = Inl SyntaxError \<and>
   effect example_WebSocket ''ftp://localhost:8000/ws'' initial = Inl SyntaxError"
  using connecting_after_effect
      [of example_WebSocket "''ws://localhost:8000/ws''"
        "\<lparr>readyState = CONNECTING, close_calls = 0\<rparr>" initial]
    connecting_after_effect
      [of example_WebSocket "''ftp://localhost:8000/ws''" _ initial SyntaxError]
    example_WebSocket_default example_WebSocket_ftp
  by blast

text \<open>C4, as it was stated, fails on the first render of the hook.\<close>

theorem first_render_not_connecting:
  "connectionState (useWebSocket_result initial) \<noteq> Connecting"
  by (simp add: useWebSocket_result_def initial_def)

text \<open>
  C10. In every state the hook can reach, \<^verbatim>\<open>isConnected\<close> is true exactly when the
  exposed connection state is Connected; every transport event is handled and leads to
  a state where this holds again.
\<close>

theorem isConnected_iff_connected:
  assumes "reachable JSON_parse WebSocket_new w"
  shows "isConnected (useWebSocket_result w) =
           (connectionState (useWebSocket_result w) = Connected) \<and>
         (\<exists>w'. step JSON_parse e w = Inr w' \<and> reachable JSON_parse WebSocket_new w' \<and>
            isConnected (useWebSocket_result w') =
              (connectionState (useWebSocket_result w') = Connected))"
proof -
  obtain w' where w': "step JSON_parse e w = Inr w'"
    using step_returns [of JSON_parse e w] by blast
  then have "reachable JSON_parse WebSocket_new w'"
    using assms by (rule reach_step [rotated])
  with w' show ?thesis by (auto simp: useWebSocket_result_def)
qed

theorem isConnected_iff_connected_witness:
  "reachable example_decoder example_WebSocket
     (onopen (initial\<lparr>connectionState := Connecting, error := None\<rparr>)) \<and>
   isConnected
     (useWebSocket_result (onopen (initial\<lparr>connectionState := Connecting, error := None\<rparr>))) \<and>
   connectionState
     (useWebSocket_result (onopen (initial\<lparr>connectionState := Connecting, error := None\<rparr>))) =
     Connected"
proof -
  have e: "effect example_WebSocket ''ws://localhost:8000/ws'' initial =
      Inr (initial\<lparr>connectionState := Connecting, error := None\<rparr>,
           \<lparr>readyState = CONNECTING, close_calls = 0\<rparr>)"
    by (simp add: effect_def example_WebSocket_def)
  have r: "reachable example_decoder example_WebSocket
      (onopen (initial\<lparr>connectionState := Connecting, error := None\<rparr>))"
    by (rule reach_step [OF reach_effect [OF reach_initial e], of _ Open]) simp
  show ?thesis
    using isConnected_iff_connected [OF r, of Close] r
    by (simp add: useWebSocket_result_def onopen_def)
qed

subsection \<open>Teardown\<close>

text \<open>
  C8. The cleanup calls \<^verbatim>\<open>close()\<close> exactly when the handle is open or connecting. On
  a handle that is closing or closed it does nothing at all, and so does a second
  cleanup after the first: the number of close calls does not grow again.
\<close>

theorem cleanup_guarded:
  "cleanup (ws\<lparr>readyState := CLOSED\<rparr>) = ws\<lparr>readyState := CLOSED\<rparr> \<and>
   cleanup (ws\<lparr>readyState := CLOSING\<rparr>) = ws\<lparr>readyState := CLOSING\<rparr> \<and>
   close_calls (cleanup ws) =
     (if readyState ws = OPEN \<or> readyState ws = CONNECTING
      then Suc (close_calls ws) else close_calls ws) \<and>
   cleanup (cleanup ws) = cleanup ws"
  by (cases "readyState ws") (simp_all add: cleanup_def WebSocket_close_def)

subsection \<open>Derived values\<close>

text \<open>
  C5. The battery class is the green one (band good) exactly above 50, the yellow one
  (warning) exactly above 20 and up to 50, the red one (critical) exactly up to 20; at
  the boundaries 50 is yellow, 50.1 green, 20 red and 20.1 yellow.
\<close>

theorem battery_band:
  "(getBatteryColor p = ''text-green-400'') = (50 < p) \<and>
   (getBatteryColor p = ''text-yellow-400'') = (20 < p \<and> p \<le> 50) \<and>
   (getBatteryColor p = ''text-red-400'') = (p \<le> 20) \<and>
   getBatteryColor 50.0 = ''text-yellow-400'' \<and>
   getBatteryColor 50.1 = ''text-green-400'' \<and>
   getBatteryColor 20.0 = ''text-red-400'' \<and>
   getBatteryColor 20.1 = ''text-yellow-400''"
  by (simp add: getBatteryColor_def)

text \<open>
  C7. The motor temperature class is the red one (critical) exactly above 60, the
  yellow one (warning) exactly above 50 and up to 60, and empty (normal, no highlight)
  exactly up to 50.
\<close>

theorem motor_temperature_band:
  "(motorTemperatureClass t = ''text-red-400'') = (60 < t) \<and>
   (motorTemperatureClass t = ''text-yellow-400'') = (50 < t \<and> t \<le> 60) \<and>
   (motorTemperatureClass t = []) = (t \<le> 50)"
  by (simp add: motorTemperatureClass_def)

text \<open>
  C6, as the code has it. For a finite non-negative uptime below \<open>2^53\<close> seconds the
  formatter agrees with the format of the specification: the seconds truncated to a
  whole number, split by integer division into hours, minutes and seconds, each padded
  with a zero to two digits (so eight characters below a hundred hours). 3661.9 gives
  01:01:01, 0 gives 00:00:00 and 86399 gives 23:59:59.
\<close>

theorem formatUptime_truncates:
  assumes "0 \<le> s" and "s < 2 ^ 53"
  shows "formatUptime (Finite s) = uptime_spec s \<and>
         (s < 360000 \<longrightarrow> length (formatUptime (Finite s)) = 8) \<and>
         formatUptime (Finite 3661.9) = ''01:01:01'' \<and>
         formatUptime (Finite 0) = ''00:00:00'' \<and>
         formatUptime (Finite 86399) = ''23:59:59''"
proof -
  have spec: "formatUptime (Finite s) = uptime_spec s"
    using assms(1)
    by (simp add: formatUptime_def uptime_spec_def Let_def hours_eq minutes_eq secs_eq
        padStart_toString
        del: Math_floor.simps js_div.simps js_rem.simps toString.simps)
  have len: "length (formatUptime (Finite s)) = 8" if "s < 360000"
  proof -
    have "\<lfloor>s\<rfloor> < 360000" using that by (simp add: floor_less_iff)
    then have "nat \<lfloor>s\<rfloor> < 100 * 3600" by linarith
    then have "nat \<lfloor>s\<rfloor> div 3600 < 100" by (rule less_mult_imp_div_less)
    then show ?thesis
      by (simp add: spec uptime_spec_def Let_def two_digits_length)
  qed
  have ex: "formatUptime (Finite 3661.9) = ''01:01:01''"
    "formatUptime (Finite 0) = ''00:00:00''"
    "formatUptime (Finite 86399) = ''23:59:59''"
    by (simp_all add: formatUptime_def padStart_def digits.simps)
  from spec len ex show ?thesis by simp
qed

theorem formatUptime_truncates_witness:
  "(0::real) \<le> 3661.9 \<and> (3661.9::real) < 2 ^ 53 \<and> (3661.9::real) < 360000 \<and>
   formatUptime (Finite 3661.9) = uptime_spec 3661.9 \<and>
   length (formatUptime (Finite 3661.9)) = 8"
proof -
  have h: "(0::real) \<le> 3661.9" and b: "(3661.9::real) < 2 ^ 53"
    and c: "(3661.9::real) < 360000"
    by simp_all
  from formatUptime_truncates [OF h b] c
  have "formatUptime (Finite 3661.9) = uptime_spec 3661.9 \<and>
      length (formatUptime (Finite 3661.9)) = 8"
    by blast
  with h b c show ?thesis by blast
qed

text \<open>
  C6, as it was stated, fails: an uptime that overflows the number range is the
  non-negative value \<^verbatim>\<open>Infinity\<close>, and the formatter prints it without hours, minutes
  or seconds.
\<close>

theorem formatUptime_overflow:
  "formatUptime PosInfinity = ''Infinity:NaN:NaN''"
  by (simp add: formatUptime_def padStart_def)

end
